theory Spec2Isabelle
  imports Complex_Main "HOL-Library.Sublist"
begin

section \<open>The cleaning stage: basic_cleaning/run.py\<close>

subsection \<open>Numeric cells\<close>

text \<open>
  A numeric column of the data frame holds float64 values. A value is modelled by the real
  number it denotes, extended with the two infinities and with NaN, which is also how the
  data frame stores a missing numeric cell. The rounding of a decimal literal to a binary
  float is not modelled: a literal stands for the number it is written as.
\<close>

datatype fl = NaN | NInf | Fin real | PInf

text \<open>The comparison \<open><=\<close> of two floats: false as soon as one side is NaN.\<close>

fun fl_le :: "fl \<Rightarrow> fl \<Rightarrow> bool" where
  "fl_le NaN _ = False"
| "fl_le _ NaN = False"
| "fl_le NInf _ = True"
| "fl_le _ PInf = True"
| "fl_le (Fin x) (Fin y) = (x \<le> y)"
| "fl_le _ _ = False"

text \<open>The comparison \<open>>\<close> of two floats, false as well when one side is NaN.\<close>

definition fl_gt :: "fl \<Rightarrow> fl \<Rightarrow> bool" where
  "fl_gt a b = (fl_le b a \<and> \<not> fl_le a b)"

text \<open>
  \<open>series >= scalar\<close> and \<open>series <= scalar\<close> at one element. The scalar is an
  attribute of the parsed arguments, which is \<open>None\<close> when its flag was not given; the
  data frame library answers False at every element for an ordering comparison with a
  null scalar.
\<close>

fun ge_scalar :: "fl \<Rightarrow> fl option \<Rightarrow> bool" where
  "ge_scalar x None = False"
| "ge_scalar x (Some b) = fl_le b x"

fun le_scalar :: "fl \<Rightarrow> fl option \<Rightarrow> bool" where
  "le_scalar x None = False"
| "le_scalar x (Some b) = fl_le x b"

text \<open>
  \<open>Series.between(left, right)\<close> at one element, with its default \<open>inclusive="both"\<close>:
  the conjunction of \<open>self >= left\<close> and \<open>self <= right\<close>.
\<close>

definition between :: "fl \<Rightarrow> fl option \<Rightarrow> fl option \<Rightarrow> bool" where
  "between x left right = (ge_scalar x left \<and> le_scalar x right)"

subsection \<open>Rows, data frames and arguments\<close>

text \<open>
  A cell of the column \<open>last_review\<close>: the raw value read from the file, a parsed date,
  or null (a missing value before the conversion, NaT after it).
\<close>

datatype ('c, 'd) review = Raw 'c | Date 'd | Null

text \<open>
  A row of the data frame: the four columns the stage reads, and all the other columns
  together in \<open>rest\<close>. A data frame is the list of its rows, in index order.
\<close>

record ('c, 'd, 'o) row =
  price :: fl
  longitude :: fl
  latitude :: fl
  last_review :: "('c, 'd) review"
  rest :: 'o

type_synonym ('c, 'd, 'o) df = "('c, 'd, 'o) row list"

text \<open>
  The namespace returned by \<open>parse_args\<close>: one attribute for each declared flag,
  \<open>None\<close> when the flag was not given.
\<close>

record args =
  input_artifact :: "string option"
  output_artifact :: "string option"
  output_type :: "string option"
  output_description :: "string option"
  min_price :: "fl option"
  max_price :: "fl option"

datatype error = ArtifactError | DateParseError | WriteError | PublishError

subsection \<open>The steps of \<open>go\<close>\<close>

text \<open>
  Lines 24 to 27: \<open>idx = df['price'].between(min_price, max_price); df = df[idx].copy()\<close>.
  Boolean indexing keeps the rows whose mask is true, in their order.
\<close>

definition drop_outliers :: "args \<Rightarrow> ('c, 'd, 'o) df \<Rightarrow> ('c, 'd, 'o) df" where
  "drop_outliers a df = filter (\<lambda>r. between (price r) (min_price a) (max_price a)) df"

text \<open>
  Line 30: \<open>df['last_review'] = pd.to_datetime(df['last_review'])\<close>. The conversion is
  called with its default \<open>errors='raise'\<close>: a missing cell becomes NaT, a cell the
  parser accepts becomes its date, and a cell the parser rejects raises, which aborts the
  stage. The parser of the library is the parameter \<open>parse\<close>; \<open>None\<close> is its refusal.
\<close>

fun to_datetime_cell :: "('c \<Rightarrow> 'd option) \<Rightarrow> ('c, 'd) review \<Rightarrow> ('c, 'd) review option" where
  "to_datetime_cell parse Null = Some Null"
| "to_datetime_cell parse (Date d) = Some (Date d)"
| "to_datetime_cell parse (Raw c) = (case parse c of None \<Rightarrow> None | Some d \<Rightarrow> Some (Date d))"

fun to_datetime ::
  "('c \<Rightarrow> 'd option) \<Rightarrow> ('c, 'd, 'o) df \<Rightarrow> ('c, 'd) review list option" where
  "to_datetime parse [] = Some []"
| "to_datetime parse (r # rs) =
     (case to_datetime_cell parse (last_review r) of
        None \<Rightarrow> None
      | Some v \<Rightarrow> (case to_datetime parse rs of None \<Rightarrow> None | Some vs \<Rightarrow> Some (v # vs)))"

text \<open>The assignment of the converted column: row by row, the other columns untouched.\<close>

fun assign_last_review ::
  "('c, 'd, 'o) df \<Rightarrow> ('c, 'd) review list \<Rightarrow> ('c, 'd, 'o) df" where
  "assign_last_review (r # rs) (v # vs) = r\<lparr>last_review := v\<rparr> # assign_last_review rs vs"
| "assign_last_review _ _ = []"

definition convert_last_review ::
  "('c \<Rightarrow> 'd option) \<Rightarrow> ('c, 'd, 'o) df \<Rightarrow> error + ('c, 'd, 'o) df" where
  "convert_last_review parse df =
     (case to_datetime parse df of
        None \<Rightarrow> Inl DateParseError
      | Some vs \<Rightarrow> Inr (assign_last_review df vs))"

text \<open>
  Lines 32 and 33: the mask
  \<open>df['longitude'].between(-74.25, -73.50) & df['latitude'].between(40.5, 41.2)\<close>
  and the boolean indexing with it. The four bounds are literals of the source.
\<close>

definition in_bounding_box :: "('c, 'd, 'o) row \<Rightarrow> bool" where
  "in_bounding_box r =
     (between (longitude r) (Some (Fin (- 74.25))) (Some (Fin (- 73.50))) \<and>
      between (latitude r) (Some (Fin 40.5)) (Some (Fin 41.2)))"

definition keep_bounding_box :: "('c, 'd, 'o) df \<Rightarrow> ('c, 'd, 'o) df" where
  "keep_bounding_box df = filter in_bounding_box df"

text \<open>Lines 24 to 33 together: what \<open>go\<close> computes between reading and writing.\<close>

definition transform ::
  "('c \<Rightarrow> 'd option) \<Rightarrow> args \<Rightarrow> ('c, 'd, 'o) df \<Rightarrow> error + ('c, 'd, 'o) df" where
  "transform parse a df =
     (case convert_last_review parse (drop_outliers a df) of
        Inl e \<Rightarrow> Inl e
      | Inr df' \<Rightarrow> Inr (keep_bounding_box df'))"

text \<open>
  The run-tracking service and the file system, as far as \<open>go\<close> uses them. Each
  operation takes the state of the outside world and returns the new one, or \<open>None\<close>
  when it raises:
  \<^item> \<open>fetch\<close>: \<open>wandb.init\<close>, \<open>run.config.update\<close> and
    \<open>run.use_artifact(name).file()\<close>, followed by \<open>pd.read_csv\<close>;
  \<^item> \<open>to_csv\<close>: writing the data frame to \<open>clean_sample.csv\<close>;
  \<^item> \<open>log_artifact\<close>: building the artifact from name, type and description, adding
    the file and logging it.
\<close>

record ('w, 'c, 'd, 'o) services =
  fetch :: "string option \<Rightarrow> 'w \<Rightarrow> (('c, 'd, 'o) df \<times> 'w) option"
  to_csv :: "('c, 'd, 'o) df \<Rightarrow> 'w \<Rightarrow> 'w option"
  log_artifact :: "string option \<Rightarrow> string option \<Rightarrow> string option \<Rightarrow> 'w \<Rightarrow> 'w option"

text \<open>
  \<open>go(args)\<close> of run.py. The result is the error that aborted the stage, or the data
  frame that was written and published together with the final state of the world.
\<close>

definition go_basic_cleaning ::
  "('w, 'c, 'd, 'o) services \<Rightarrow> ('c \<Rightarrow> 'd option) \<Rightarrow> args \<Rightarrow> 'w \<Rightarrow>
     error + (('c, 'd, 'o) df \<times> 'w)" where
  "go_basic_cleaning sv parse a w =
     (case fetch sv (input_artifact a) w of
        None \<Rightarrow> Inl ArtifactError
      | Some (df, w1) \<Rightarrow>
          (case transform parse a df of
             Inl e \<Rightarrow> Inl e
           | Inr out \<Rightarrow>
               (case to_csv sv out w1 of
                  None \<Rightarrow> Inl WriteError
                | Some w2 \<Rightarrow>
                    (case log_artifact sv (output_artifact a) (output_type a)
                            (output_description a) w2 of
                       None \<Rightarrow> Inl PublishError
                     | Some w3 \<Rightarrow> Inr (out, w3)))))"

subsection \<open>The command line of the stage\<close>

text \<open>
  The \<open>__main__\<close> block builds an \<open>ArgumentParser\<close> with six calls of
  \<open>add_argument\<close>, each of the form \<open>add_argument("--name", type=..., help=...)\<close>.
  A declaration is recorded with its option string, its \<open>type\<close> and its \<open>required\<close>
  attribute. No call passes \<open>required\<close>, so the attribute has the default of the
  library, False.
\<close>

datatype arg_type = TStr | TFloat

record argument =
  flag :: string
  ty :: arg_type
  required :: bool






definition dest :: "argument \<Rightarrow> string" where
  "dest d = drop 2 (flag d)"








section \<open>The pipeline driver: main.py\<close>

subsection \<open>Configuration and calls\<close>

text \<open>
  The configuration is a nested mapping: a value is a string, another scalar (a number,
  a boolean, null or a list, of the type \<open>'v\<close> that the driver never inspects) or a
  mapping from keys to values.
\<close>

datatype 'v cval = CStr string | CVal 'v | CDict "(string \<times> 'v cval) list"

datatype run_error =
  KeyError string | TypeError | AttributeError | TrackingError | WriteFailed
  | StageFailed string

text \<open>\<open>config[k]\<close>: a missing key raises, and so does indexing a scalar.\<close>

fun getitem :: "'v cval \<Rightarrow> string \<Rightarrow> run_error + 'v cval" where
  "getitem (CDict kvs) k = (case map_of kvs k of None \<Rightarrow> Inl (KeyError k) | Some v \<Rightarrow> Inr v)"
| "getitem _ k = Inl TypeError"

text \<open>\<open>config[a][b]\<close>.\<close>

definition getitem2 :: "'v cval \<Rightarrow> string \<Rightarrow> string \<Rightarrow> run_error + 'v cval" where
  "getitem2 config a b = (case getitem config a of Inl e \<Rightarrow> Inl e | Inr sec \<Rightarrow> getitem sec b)"

text \<open>
  A call of \<open>mlflow.run\<close>: the location of the stage (a directory below the directory
  of main.py, named \<open>root_path\<close> or \<open>project_root\<close>, or below the original working
  directory), the entry point, the environment manager when one is passed, and the
  parameters in the order of the dictionary literal. A parameter value is a literal of
  the source, a value of the configuration, or the path of a file in the temporary
  directory.
\<close>

datatype base = RootPath | ProjectRoot | OriginalCwd

datatype 'v pval = PStr string | PCfg "'v cval" | PTmpFile string

record 'v call =
  location :: "base \<times> string list"
  entry_point :: string
  env_manager :: "string option"
  parameters :: "(string \<times> 'v pval) list"

text \<open>
  A dictionary literal evaluates its values in order; the first lookup that raises
  aborts the literal.
\<close>

fun eval_params :: "(string \<times> (run_error + 'v pval)) list \<Rightarrow> run_error + (string \<times> 'v pval) list"
  where
  "eval_params [] = Inr []"
| "eval_params ((k, Inl e) # kvs) = Inl e"
| "eval_params ((k, Inr v) # kvs) =
     (case eval_params kvs of Inl e \<Rightarrow> Inl e | Inr ps \<Rightarrow> Inr ((k, v) # ps))"

definition lit :: "string \<Rightarrow> run_error + 'v pval" where
  "lit s = Inr (PStr s)"

definition cfg :: "'v cval \<Rightarrow> string \<Rightarrow> string \<Rightarrow> run_error + 'v pval" where
  "cfg config a b = (case getitem2 config a b of Inl e \<Rightarrow> Inl e | Inr v \<Rightarrow> Inr (PCfg v))"

definition mk_call ::
  "base \<times> string list \<Rightarrow> string option \<Rightarrow> (string \<times> (run_error + 'v pval)) list \<Rightarrow>
     run_error + 'v call" where
  "mk_call loc env kvs =
     (case eval_params kvs of
        Inl e \<Rightarrow> Inl e
      | Inr ps \<Rightarrow>
          Inr \<lparr>location = loc, entry_point = ''main'', env_manager = env, parameters = ps\<rparr>)"

subsection \<open>The module constant and the selection of steps\<close>

text \<open>The list \<open>_steps\<close> of lines 11 to 21; its sixth name is commented out.\<close>

definition steps_list :: "string list" where
  "steps_list =
     [''download'', ''basic_cleaning'', ''data_check'', ''data_split'', ''train_random_forest'']"

text \<open>\<open>str.split(sep)\<close> with a separator of one character.\<close>

fun split :: "char \<Rightarrow> string \<Rightarrow> string list" where
  "split sep [] = ['''']"
| "split sep (c # cs) =
     (if c = sep then [] # split sep cs
      else (case split sep cs of [] \<Rightarrow> [c] # [] | w # ws \<Rightarrow> (c # w) # ws))"

text \<open>Line 38: \<open>steps_par.split(",") if steps_par != "all" else _steps\<close>.\<close>

definition active_steps :: "string \<Rightarrow> string list" where
  "active_steps steps_par = (if steps_par \<noteq> ''all'' then split CHR '','' steps_par else steps_list)"

subsection \<open>The outside world and the state of a run\<close>

text \<open>
  What the driver asks of the outside, each operation from world to world, \<open>None\<close>
  when it raises:
  \<^item> \<open>setenv\<close>: an assignment to \<open>os.environ\<close>;
  \<^item> \<open>set_experiment\<close>: \<open>mlflow.set_tracking_uri\<close> and \<open>mlflow.set_experiment\<close>;
  \<^item> \<open>mlflow_run\<close>: \<open>mlflow.run\<close>, which returns when the stage has finished and
    raises when it has failed;
  \<^item> \<open>json_dump\<close>: writing \<open>rf_config.json\<close> in the temporary directory.
  The creation and the removal of the temporary directory are not modelled.
\<close>

record ('v, 'w) externals =
  setenv :: "string \<Rightarrow> string \<Rightarrow> 'w \<Rightarrow> 'w"
  set_experiment :: "string \<Rightarrow> 'w \<Rightarrow> 'w option"
  mlflow_run :: "'v call \<Rightarrow> 'w \<Rightarrow> 'w option"
  json_dump :: "'v cval \<Rightarrow> 'w \<Rightarrow> 'w option"

text \<open>
  The state of a run: the world, the calls of \<open>mlflow.run\<close> made so far, each with the
  step name of the \<open>if\<close> it stands under, and the exception that has aborted the run,
  if any.
\<close>

record ('v, 'w) pstate =
  world :: 'w
  invoked :: "(string \<times> 'v call) list"
  failure :: "run_error option"

definition fail :: "run_error \<Rightarrow> ('v, 'w) pstate \<Rightarrow> ('v, 'w) pstate" where
  "fail e s = s\<lparr>failure := Some e\<rparr>"

subsection \<open>The steps of \<open>go\<close>\<close>

text \<open>
  Lines 29 to 34. The environment takes strings only: another value raises TypeError.
\<close>

definition init_tracking :: "('v, 'w) externals \<Rightarrow> 'v cval \<Rightarrow> 'w \<Rightarrow> ('v, 'w) pstate" where
  "init_tracking ex config w =
     (let s = \<lparr>world = w, invoked = [], failure = None\<rparr> in
      case getitem2 config ''main'' ''project_name'' of
        Inl e \<Rightarrow> fail e s
      | Inr (CStr p) \<Rightarrow>
          (let w1 = setenv ex ''WANDB_PROJECT'' p w in
           case getitem2 config ''main'' ''experiment_name'' of
             Inl e \<Rightarrow> fail e (s\<lparr>world := w1\<rparr>)
           | Inr (CStr g) \<Rightarrow>
               (let w2 = setenv ex ''WANDB_RUN_GROUP'' g w1 in
                case set_experiment ex g w2 of
                  None \<Rightarrow> fail TrackingError (s\<lparr>world := w2\<rparr>)
                | Some w3 \<Rightarrow> s\<lparr>world := w3\<rparr>)
           | Inr _ \<Rightarrow> fail TypeError (s\<lparr>world := w1\<rparr>))
      | Inr _ \<Rightarrow> fail TypeError s)"

text \<open>
  One block \<open>if "name" in active_steps: ... mlflow.run(...)\<close>. Nothing happens once the
  run is aborted or when the name is not in the list. Otherwise the block prepares (only
  the training step does: it writes a file), evaluates the arguments of the call, and
  calls; an exception at any of the three aborts the run.
\<close>

definition stage ::
  "('v, 'w) externals \<Rightarrow> string list \<Rightarrow> string \<Rightarrow> ('w \<Rightarrow> run_error + 'w) \<Rightarrow>
     run_error + 'v call \<Rightarrow> ('v, 'w) pstate \<Rightarrow> ('v, 'w) pstate" where
  "stage ex active name prepare build s =
     (if failure s \<noteq> None then s
      else if name \<notin> set active then s
      else case prepare (world s) of
             Inl e \<Rightarrow> fail e s
           | Inr w1 \<Rightarrow>
               (case build of
                  Inl e \<Rightarrow> fail e (s\<lparr>world := w1\<rparr>)
                | Inr c \<Rightarrow>
                    (case mlflow_run ex c w1 of
                       None \<Rightarrow>
                         fail (StageFailed name) (s\<lparr>world := w1, invoked := invoked s @ [(name, c)]\<rparr>)
                     | Some w2 \<Rightarrow> s\<lparr>world := w2, invoked := invoked s @ [(name, c)]\<rparr>)))"

definition no_prepare :: "'w \<Rightarrow> run_error + 'w" where
  "no_prepare w = Inr w"

text \<open>The six calls, lines 48 to 126.\<close>

definition download_call :: "'v cval \<Rightarrow> run_error + 'v call" where
  "download_call config =
     mk_call (ProjectRoot, [''components'', ''get_data'']) (Some ''conda'')
       [(''sample'', cfg config ''etl'' ''sample''),
        (''artifact_name'', lit ''sample.csv''),
        (''artifact_type'', lit ''raw_data''),
        (''artifact_description'', lit ''Raw file as downloaded'')]"

definition basic_cleaning_call :: "'v cval \<Rightarrow> run_error + 'v call" where
  "basic_cleaning_call config =
     mk_call (OriginalCwd, [''src'', ''basic_cleaning'']) None
       [(''input_artifact'', lit ''sample.csv:latest''),
        (''output_artifact'', lit ''clean_sample.csv''),
        (''output_type'', lit ''clean_sample''),
        (''output_description'', lit ''Data with outliers and null values removed''),
        (''min_price'', cfg config ''etl'' ''min_price''),
        (''max_price'', cfg config ''etl'' ''max_price'')]"

definition clean_sample_ref :: "string \<Rightarrow> string" where
  "clean_sample_ref alias =
     ''adamjhenderson95-western-governors-university/project-ml-pipeline-src_basic_cleaning/clean_sample.csv:''
       @ alias"

definition data_check_call :: "'v cval \<Rightarrow> run_error + 'v call" where
  "data_check_call config =
     mk_call (OriginalCwd, [''src'', ''data_check'']) None
       [(''csv'', lit (clean_sample_ref ''latest'')),
        (''ref'', lit (clean_sample_ref ''reference'')),
        (''kl_threshold'', cfg config ''data_check'' ''kl_threshold''),
        (''min_price'', cfg config ''data_check'' ''min_price''),
        (''max_price'', cfg config ''data_check'' ''max_price'')]"

definition data_split_call :: "'v cval \<Rightarrow> run_error + 'v call" where
  "data_split_call config =
     mk_call (RootPath, [''components/train_val_test_split'']) None
       [(''input'', lit (clean_sample_ref ''latest'')),
        (''test_size'', cfg config ''modeling'' ''test_size''),
        (''random_seed'', cfg config ''modeling'' ''random_seed''),
        (''stratify_by'', cfg config ''modeling'' ''stratify_by'')]"

text \<open>
  Lines 100 to 102: the sub-mapping \<open>modeling.random_forest\<close> is looked up and written
  as JSON to \<open>rf_config.json\<close> in the temporary directory. The source opens the file
  before the lookup; the empty file that a failing lookup leaves behind is not modelled.
\<close>

definition write_rf_config :: "('v, 'w) externals \<Rightarrow> 'v cval \<Rightarrow> 'w \<Rightarrow> run_error + 'w" where
  "write_rf_config ex config w =
     (case getitem2 config ''modeling'' ''random_forest'' of
        Inl e \<Rightarrow> Inl e
      | Inr rf \<Rightarrow> (case json_dump ex rf w of None \<Rightarrow> Inl WriteFailed | Some w1 \<Rightarrow> Inr w1))"

definition train_random_forest_call :: "'v cval \<Rightarrow> run_error + 'v call" where
  "train_random_forest_call config =
     mk_call (RootPath, [''src/train_random_forest'']) None
       [(''trainval_artifact'',
           lit ''adamjhenderson95-western-governors-university/nyc_airbnb/trainval_data.csv:v0''),
        (''val_size'', cfg config ''modeling'' ''val_size''),
        (''random_seed'', cfg config ''modeling'' ''random_seed''),
        (''stratify_by'', cfg config ''modeling'' ''stratify_by''),
        (''rf_config'', Inr (PTmpFile ''rf_config.json'')),
        (''max_tfidf_features'', cfg config ''modeling'' ''max_tfidf_features''),
        (''output_artifact'', cfg config ''modeling'' ''output_artifact'')]"

text \<open>The last call reads nothing from the configuration.\<close>

definition test_regression_model_call :: "'v cval \<Rightarrow> run_error + 'v call" where
  "test_regression_model_call config =
     mk_call (RootPath, [''components/test_regression_model'']) None
       [(''mlflow_model'', lit ''random_forest_export:prod''),
        (''test_dataset'', lit ''test_data.csv:latest'')]"

text \<open>Lines 43 to 126: the six blocks in the order of the source.\<close>

definition run_steps ::
  "('v, 'w) externals \<Rightarrow> 'v cval \<Rightarrow> string list \<Rightarrow> ('v, 'w) pstate \<Rightarrow> ('v, 'w) pstate" where
  "run_steps ex config active s0 =
     (let s1 = stage ex active ''download'' no_prepare (download_call config) s0;
          s2 = stage ex active ''basic_cleaning'' no_prepare (basic_cleaning_call config) s1;
          s3 = stage ex active ''data_check'' no_prepare (data_check_call config) s2;
          s4 = stage ex active ''data_split'' no_prepare (data_split_call config) s3;
          s5 = stage ex active ''train_random_forest'' (write_rf_config ex config)
                 (train_random_forest_call config) s4;
          s6 = stage ex active ''test_regression_model'' no_prepare
                 (test_regression_model_call config) s5
      in s6)"

text \<open>
  \<open>go(config)\<close> of main.py. A value of \<open>main.steps\<close> that is not a string is different
  from \<open>"all"\<close> and has no method \<open>split\<close>.
\<close>

definition go :: "('v, 'w) externals \<Rightarrow> 'v cval \<Rightarrow> 'w \<Rightarrow> ('v, 'w) pstate" where
  "go ex config w =
     (let s0 = init_tracking ex config w in
      if failure s0 \<noteq> None then s0
      else case getitem2 config ''main'' ''steps'' of
             Inl e \<Rightarrow> fail e s0
           | Inr (CStr steps_par) \<Rightarrow> run_steps ex config (active_steps steps_par) s0
           | Inr _ \<Rightarrow> fail AttributeError s0)"

text \<open>The names that the six blocks test for, in the order of the blocks.\<close>

definition stage_names :: "string list" where
  "stage_names =
     [''download'', ''basic_cleaning'', ''data_check'', ''data_split'', ''train_random_forest'',
      ''test_regression_model'']"

section \<open>Instances of the parameters and example inputs\<close>

subsection \<open>Instances of the parameters\<close>

text \<open>
  The theorems below hold for every date parser, every \<open>float\<close> and every world. To
  evaluate the model on concrete inputs, here are small instances of them: a \<open>float\<close>
  that reads plain decimal numerals, \<open>nan\<close>, \<open>inf\<close> and \<open>-inf\<close>, a date parser that
  reads \<open>YYYY-MM-DD\<close>, and a world that keeps the artifacts in memory. The two parsers
  refuse every other text, also texts that the library would read.
\<close>

definition digit_of :: "char \<Rightarrow> nat option" where
  "digit_of c = (if c \<in> set ''0123456789'' then Some (of_char c - 48) else None)"

fun digits_value :: "string \<Rightarrow> nat \<Rightarrow> nat option" where
  "digits_value [] acc = Some acc"
| "digits_value (c # cs) acc =
     (case digit_of c of None \<Rightarrow> None | Some d \<Rightarrow> digits_value cs (10 * acc + d))"

definition number :: "string \<Rightarrow> nat option" where
  "number s = (if s = [] then None else digits_value s 0)"



definition days_in_month :: "nat \<Rightarrow> nat \<Rightarrow> nat" where
  "days_in_month y m =
     (if m = 2 then (if y mod 4 = 0 \<and> (y mod 100 \<noteq> 0 \<or> y mod 400 = 0) then 29 else 28)
      else if m \<in> {4, 6, 9, 11} then 30 else 31)"

definition sample_parse_date :: "string \<Rightarrow> (nat \<times> nat \<times> nat) option" where
  "sample_parse_date s =
     (if length s = 10 \<and> s ! 4 = CHR ''-'' \<and> s ! 7 = CHR ''-'' then
        (case (number (take 4 s), number (take 2 (drop 5 s)), number (drop 8 s)) of
           (Some y, Some m, Some d) \<Rightarrow>
             if 1 \<le> m \<and> m \<le> 12 \<and> 1 \<le> d \<and> d \<le> days_in_month y m then Some (y, m, d) else None
         | _ \<Rightarrow> None)
      else None)"

record ('c, 'd, 'o) world =
  artifacts :: "(string \<times> ('c, 'd, 'o) df) list"
  local_csv :: "('c, 'd, 'o) df option"

definition sample_services :: "(('c, 'd, 'o) world, 'c, 'd, 'o) services" where
  "sample_services =
     \<lparr>fetch = (\<lambda>name w.
        case name of
          None \<Rightarrow> None
        | Some n \<Rightarrow> (case map_of (artifacts w) n of None \<Rightarrow> None | Some df \<Rightarrow> Some (df, w))),
      to_csv = (\<lambda>df w. Some (w\<lparr>local_csv := Some df\<rparr>)),
      log_artifact = (\<lambda>name kind desc w.
        case (name, local_csv w) of
          (Some n, Some df) \<Rightarrow> Some (w\<lparr>artifacts := (n, df) # artifacts w\<rparr>)
        | _ \<Rightarrow> None)\<rparr>"

subsection \<open>Example inputs\<close>

text \<open>
  A file of three rows with the prices 10, 100 and 600, all inside the bounding box, the
  thresholds 50 and 500, and the world that holds the file as \<open>sample.csv:latest\<close>.
  The run keeps the row with the price 100.
\<close>

definition example_df :: "(string, nat \<times> nat \<times> nat, string) df" where
  "example_df =
     [\<lparr>price = Fin 10, longitude = Fin (- 73.9), latitude = Fin 40.7,
       last_review = Raw ''2019-05-21'', rest = ''a''\<rparr>,
      \<lparr>price = Fin 100, longitude = Fin (- 73.95), latitude = Fin 40.8,
       last_review = Raw ''2019-06-30'', rest = ''b''\<rparr>,
      \<lparr>price = Fin 600, longitude = Fin (- 74), latitude = Fin 40.6,
       last_review = Null, rest = ''c''\<rparr>]"

definition example_args :: args where
  "example_args =
     \<lparr>input_artifact = Some ''sample.csv:latest'', output_artifact = Some ''clean_sample.csv'',
      output_type = Some ''clean_sample'', output_description = Some ''Data cleaned'',
      min_price = Some (Fin 50), max_price = Some (Fin 500)\<rparr>"

definition example_world :: "(string, nat \<times> nat \<times> nat, string) world" where
  "example_world = \<lparr>artifacts = [(''sample.csv:latest'', example_df)], local_csv = None\<rparr>"

definition example_out :: "(string, nat \<times> nat \<times> nat, string) df" where
  "example_out =
     [\<lparr>price = Fin 100, longitude = Fin (- 73.95), latitude = Fin 40.8,
       last_review = Date (2019, 6, 30), rest = ''b''\<rparr>]"

definition example_world' :: "(string, nat \<times> nat \<times> nat, string) world" where
  "example_world' =
     \<lparr>artifacts = [(''clean_sample.csv'', example_out), (''sample.csv:latest'', example_df)],
      local_csv = Some example_out\<rparr>"



definition inverted_args :: args where
  "inverted_args = example_args\<lparr>min_price := Some (Fin 500), max_price := Some (Fin 50)\<rparr>"



text \<open>
  The six names with the calls that stand under them, for stating which call a name
  stands for.
\<close>

definition call_table :: "'v cval \<Rightarrow> (string \<times> (run_error + 'v call)) list" where
  "call_table config =
     [(''download'', download_call config),
      (''basic_cleaning'', basic_cleaning_call config),
      (''data_check'', data_check_call config),
      (''data_split'', data_split_call config),
      (''train_random_forest'', train_random_forest_call config),
      (''test_regression_model'', test_regression_model_call config)]"

text \<open>
  A configuration with every key the driver reads, for a given value of \<open>main.steps\<close>,
  and an outside world in which every operation succeeds; its state counts the stages run.
\<close>

definition example_config :: "string \<Rightarrow> real cval" where
  "example_config steps_par =
     CDict
       [(''main'', CDict [(''project_name'', CStr ''nyc_airbnb''),
          (''experiment_name'', CStr ''development''), (''steps'', CStr steps_par)]),
        (''etl'', CDict [(''sample'', CStr ''sample1.csv''), (''min_price'', CVal 10),
          (''max_price'', CVal 350)]),
        (''data_check'', CDict [(''kl_threshold'', CVal 0.2), (''min_price'', CVal 10),
          (''max_price'', CVal 350)]),
        (''modeling'', CDict [(''test_size'', CVal 0.2), (''val_size'', CVal 0.2),
          (''random_seed'', CVal 42), (''stratify_by'', CStr ''neighbourhood_group''),
          (''max_tfidf_features'', CVal 5), (''output_artifact'', CStr ''random_forest_export''),
          (''random_forest'', CDict [(''n_estimators'', CVal 100)])])]"

definition sample_externals :: "(real, nat) externals" where
  "sample_externals =
     \<lparr>setenv = (\<lambda>k v w. w), set_experiment = (\<lambda>name w. Some w),
      mlflow_run = (\<lambda>c w. Some (Suc w)), json_dump = (\<lambda>v w. Some w)\<rparr>"


section \<open>Properties of the cleaning stage\<close>

subsection \<open>Auxiliary facts\<close>

text \<open>
  The row that the conversion makes of a row it accepts; used to describe the output in
  closed form.
\<close>

definition converted :: "('c \<Rightarrow> 'd option) \<Rightarrow> ('c, 'd, 'o) row \<Rightarrow> ('c, 'd, 'o) row" where
  "converted parse r =
     r\<lparr>last_review :=
         (case to_datetime_cell parse (last_review r) of None \<Rightarrow> last_review r | Some v \<Rightarrow> v)\<rparr>"

lemma fl_le_NaN_right [simp]: "\<not> fl_le a NaN"
  by (cases a) simp_all

lemma between_NaN: "\<not> between NaN left right"
  by (cases left; cases right) (simp_all add: between_def)

lemma between_Some:
  "between x (Some lo) (Some hi) = (fl_le lo x \<and> fl_le x hi)"
  by (simp add: between_def)

lemma between_bounds:
  "between x left right \<Longrightarrow>
     \<exists>lo hi. left = Some lo \<and> right = Some hi \<and> fl_le lo x \<and> fl_le x hi"
  by (cases left; cases right) (simp_all add: between_def)

lemma fl_le_trans: "fl_le a b \<Longrightarrow> fl_le b c \<Longrightarrow> fl_le a c"
  by (cases a; cases b; cases c) simp_all

lemma to_datetime_assign:
  "to_datetime parse df = Some vs \<Longrightarrow> assign_last_review df vs = map (converted parse) df"
proof (induction df arbitrary: vs)
  case Nil
  then show ?case by simp
next
  case (Cons r rs)
  then show ?case
    by (auto simp: converted_def split: option.splits)
qed


lemma convert_last_review_Inr:
  "convert_last_review parse df = Inr df' \<Longrightarrow> df' = map (converted parse) df"
  by (auto simp: convert_last_review_def to_datetime_assign split: option.splits)

lemma in_bounding_box_converted [simp]:
  "in_bounding_box (converted parse r) = in_bounding_box r"
  by (simp add: in_bounding_box_def converted_def)

lemma price_converted [simp]: "price (converted parse r) = price r"
  by (simp add: converted_def)

lemma transform_Inr:
  assumes "transform parse a df = Inr out"
  shows "out = map (converted parse)
           (filter (\<lambda>r. between (price r) (min_price a) (max_price a) \<and> in_bounding_box r) df)"
proof -
  from assms obtain mid where mid: "convert_last_review parse (drop_outliers a df) = Inr mid"
    and out: "out = keep_bounding_box mid"
    by (auto simp: transform_def split: sum.splits)
  from mid have "mid = map (converted parse) (drop_outliers a df)"
    by (rule convert_last_review_Inr)
  with out show ?thesis
    by (simp add: keep_bounding_box_def drop_outliers_def filter_map comp_def conj_commute)
qed

lemma go_basic_cleaning_Inr:
  assumes "go_basic_cleaning sv parse a w = Inr (out, w')"
  shows "\<exists>df w1. fetch sv (input_artifact a) w = Some (df, w1) \<and> transform parse a df = Inr out"
  using assms
  by (auto simp: go_basic_cleaning_def split: option.splits sum.splits)

subsection \<open>The example run\<close>

lemmas sample_defs =
  sample_services_def sample_parse_date_def number_def digit_of_def days_in_month_def
  go_basic_cleaning_def transform_def drop_outliers_def convert_last_review_def
  keep_bounding_box_def in_bounding_box_def between_def

lemma example_run:
  "go_basic_cleaning sample_services sample_parse_date example_args example_world
     = Inr (example_out, example_world')"
  by (simp add: sample_defs example_args_def example_world_def example_df_def example_out_def
      example_world'_def)

lemma hd_example_out: "hd example_out \<in> set example_out"
  by (simp add: example_out_def)

subsection \<open>The price filter\<close>

text \<open>
  Claim C1. Whatever the input file and the thresholds, when the stage completes, every
  row it has written has its price between \<open>min_price\<close> and \<open>max_price\<close>, both
  bounds included: both thresholds are numbers, the lower one is at most the price and
  the price is at most the upper one.
\<close>

theorem price_within_thresholds:
  assumes "go_basic_cleaning sv parse a w = Inr (out, w')" and "r \<in> set out"
  shows "\<exists>lo hi. min_price a = Some lo \<and> max_price a = Some hi \<and>
           fl_le lo (price r) \<and> fl_le (price r) hi"
proof -
  from go_basic_cleaning_Inr [OF assms(1)] obtain df where "transform parse a df = Inr out"
    by blast
  then have "out = map (converted parse)
      (filter (\<lambda>r. between (price r) (min_price a) (max_price a) \<and> in_bounding_box r) df)"
    by (rule transform_Inr)
  with assms(2) have "between (price r) (min_price a) (max_price a)"
    by auto
  then show ?thesis
    by (rule between_bounds)
qed

theorem price_within_thresholds_witness:
  "go_basic_cleaning sample_services sample_parse_date example_args example_world
     = Inr (example_out, example_world') \<and>
   hd example_out \<in> set example_out \<and>
   (\<exists>lo hi. min_price example_args = Some lo \<and> max_price example_args = Some hi \<and>
      fl_le lo (price (hd example_out)) \<and> fl_le (price (hd example_out)) hi)"
  using example_run hd_example_out
    price_within_thresholds [OF example_run hd_example_out] by simp

lemma example_fetch:
  "fetch sample_services (input_artifact example_args) example_world = Some (example_df, example_world)"
  by (simp add: sample_services_def example_args_def example_world_def)


subsection \<open>The bounding box\<close>

text \<open>
  Claim C5. Whatever the input file and the arguments, when the stage completes, every
  row it has written has its longitude between -74.25 and -73.50 and its latitude between
  40.5 and 41.2, bounds included. The four bounds are constants of \<open>go\<close>: the statement
  holds for all arguments and all worlds, none of which can move them.
\<close>

theorem bounding_box_fixed:
  assumes "go_basic_cleaning sv parse a w = Inr (out, w')" and "r \<in> set out"
  shows "fl_le (Fin (- 74.25)) (longitude r) \<and> fl_le (longitude r) (Fin (- 73.50)) \<and>
         fl_le (Fin 40.5) (latitude r) \<and> fl_le (latitude r) (Fin 41.2)"
proof -
  from go_basic_cleaning_Inr [OF assms(1)] obtain df where "transform parse a df = Inr out"
    by blast
  then have "out = map (converted parse)
      (filter (\<lambda>r. between (price r) (min_price a) (max_price a) \<and> in_bounding_box r) df)"
    by (rule transform_Inr)
  with assms(2) have "in_bounding_box r"
    by auto
  then show ?thesis
    by (simp add: in_bounding_box_def between_Some)
qed

theorem bounding_box_fixed_witness:
  "go_basic_cleaning sample_services sample_parse_date example_args example_world
     = Inr (example_out, example_world') \<and>
   hd example_out \<in> set example_out \<and>
   fl_le (Fin (- 74.25)) (longitude (hd example_out)) \<and>
   fl_le (longitude (hd example_out)) (Fin (- 73.50)) \<and>
   fl_le (Fin 40.5) (latitude (hd example_out)) \<and> fl_le (latitude (hd example_out)) (Fin 41.2)"
  using example_run hd_example_out bounding_box_fixed [OF example_run hd_example_out]
  by simp

subsection \<open>The conversion of \<open>last_review\<close>\<close>






subsection \<open>Running the stage again\<close>




subsection \<open>What the stage leaves unchanged\<close>

text \<open>
  Claim C9. The stage only deletes rows and rewrites \<open>last_review\<close>: the rows written
  come one for one, in the same order, from a subsequence of the rows read, and each
  differs from the row it comes from in the column \<open>last_review\<close> at most.
\<close>

theorem rows_only_deleted:
  assumes "fetch sv (input_artifact a) w = Some (df, w1)"
    and "go_basic_cleaning sv parse a w = Inr (out, w')"
  shows "\<exists>kept. subseq kept df \<and>
           list_all2 (\<lambda>r r'. \<exists>v. r' = r\<lparr>last_review := v\<rparr>) kept out"
proof -
  let ?keep = "\<lambda>r. between (price r) (min_price a) (max_price a) \<and> in_bounding_box r"
  from assms have "transform parse a df = Inr out"
    by (auto dest: go_basic_cleaning_Inr)
  then have out: "out = map (converted parse) (filter ?keep df)"
    by (rule transform_Inr)
  have "subseq (filter ?keep df) df"
    by (rule subseq_filter_left)
  moreover have "list_all2 (\<lambda>r r'. \<exists>v. r' = r\<lparr>last_review := v\<rparr>) (filter ?keep df) out"
    unfolding out by (auto simp: list_all2_map2 converted_def intro!: list_all2_refl)
  ultimately show ?thesis
    by blast
qed

theorem rows_only_deleted_witness:
  "fetch sample_services (input_artifact example_args) example_world
     = Some (example_df, example_world) \<and>
   go_basic_cleaning sample_services sample_parse_date example_args example_world
     = Inr (example_out, example_world') \<and>
   (\<exists>kept. subseq kept example_df \<and>
      list_all2 (\<lambda>r r'. \<exists>v. r' = r\<lparr>last_review := v\<rparr>) kept example_out)"
  using example_fetch example_run rows_only_deleted [OF example_fetch example_run]
  by simp

subsection \<open>Missing values and empty ranges\<close>

lemma fl_gt_not_le: "fl_gt lo hi \<Longrightarrow> \<not> fl_le lo hi"
  by (simp add: fl_gt_def)

lemma between_inverted: "fl_gt lo hi \<Longrightarrow> \<not> between x (Some lo) (Some hi)"
  using fl_le_trans [of lo x hi] by (auto simp: between_Some fl_gt_def)

text \<open>
  Claim C10. A missing value (NaN) is outside every range: the mask of \<open>between\<close> is
  False for it, with no error, so no row written has a missing price, longitude or
  latitude. When \<open>min_price\<close> is greater than \<open>max_price\<close>, the price filter keeps
  no row, and the stage goes on with an empty data frame.
\<close>

theorem missing_values_excluded:
  "(\<forall>left right. \<not> between NaN left right) \<and>
   (go_basic_cleaning sv parse a w = Inr (out, w') \<longrightarrow>
      (\<forall>r \<in> set out. price r \<noteq> NaN \<and> longitude r \<noteq> NaN \<and> latitude r \<noteq> NaN)) \<and>
   (min_price a = Some lo \<and> max_price a = Some hi \<and> fl_gt lo hi \<longrightarrow>
      drop_outliers a df = [] \<and> transform parse a df = Inr [])"
proof (intro conjI impI allI)
  fix left right show "\<not> between NaN left right"
    by (rule between_NaN)
next
  assume run: "go_basic_cleaning sv parse a w = Inr (out, w')"
  from go_basic_cleaning_Inr [OF run] obtain df0 where "transform parse a df0 = Inr out"
    by blast
  then have out: "out = map (converted parse)
      (filter (\<lambda>r. between (price r) (min_price a) (max_price a) \<and> in_bounding_box r) df0)"
    by (rule transform_Inr)
  show "\<forall>r \<in> set out. price r \<noteq> NaN \<and> longitude r \<noteq> NaN \<and> latitude r \<noteq> NaN"
  proof
    fix r assume "r \<in> set out"
    with out have "between (price r) (min_price a) (max_price a)" and "in_bounding_box r"
      by auto
    then show "price r \<noteq> NaN \<and> longitude r \<noteq> NaN \<and> latitude r \<noteq> NaN"
      using between_NaN by (auto simp: in_bounding_box_def)
  qed
next
  assume h: "min_price a = Some lo \<and> max_price a = Some hi \<and> fl_gt lo hi"
  then show empty: "drop_outliers a df = []"
    by (simp add: drop_outliers_def between_inverted)
  show "transform parse a df = Inr []"
    by (simp add: transform_def empty convert_last_review_def keep_bounding_box_def)
qed

theorem missing_values_excluded_witness:
  "(\<forall>left right. \<not> between NaN left right) \<and>
   (go_basic_cleaning sample_services sample_parse_date example_args example_world
      = Inr (example_out, example_world') \<and>
    hd example_out \<in> set example_out \<and>
    price (hd example_out) \<noteq> NaN \<and> longitude (hd example_out) \<noteq> NaN \<and>
    latitude (hd example_out) \<noteq> NaN) \<and>
   (min_price inverted_args = Some (Fin 500) \<and> max_price inverted_args = Some (Fin 50) \<and>
    fl_gt (Fin 500) (Fin 50) \<and>
    drop_outliers inverted_args example_df = [] \<and>
    transform sample_parse_date inverted_args example_df = Inr [])"
proof -
  have h: "min_price inverted_args = Some (Fin 500) \<and> max_price inverted_args = Some (Fin 50) \<and>
    fl_gt (Fin 500) (Fin 50)"
    by (simp add: inverted_args_def fl_gt_def)
  show ?thesis
    using example_run h hd_example_out
      missing_values_excluded [of sample_services sample_parse_date example_args example_world
        example_out example_world' "Fin 500" "Fin 50" example_df]
      missing_values_excluded [of sample_services sample_parse_date inverted_args example_world
        example_out example_world' "Fin 500" "Fin 50" example_df]
    by blast
qed

section \<open>Properties of the pipeline driver\<close>

subsection \<open>One block\<close>

lemma stage_skip: "name \<notin> set active \<Longrightarrow> stage ex active name prep build s = s"
  by (simp add: stage_def)


lemma stage_failure_None:
  "failure (stage ex active name prep build s) = None \<Longrightarrow> failure s = None"
  by (auto simp: stage_def fail_def split: if_splits sum.splits option.splits)

lemma stage_invoked:
  "invoked (stage ex active name prep build s) = invoked s \<or>
   (name \<in> set active \<and> (\<exists>c. build = Inr c \<and>
      invoked (stage ex active name prep build s) = invoked s @ [(name, c)]))"
  by (auto simp: stage_def fail_def split: sum.splits option.splits)


lemma init_tracking_invoked [simp]: "invoked (init_tracking ex config w) = []"
  by (auto simp: init_tracking_def fail_def Let_def split: sum.splits cval.splits option.splits)

lemma invoked_fail [simp]: "invoked (fail e s) = invoked s"
  by (simp add: fail_def)

lemma failure_fail [simp]: "failure (fail e s) = Some e"
  by (simp add: fail_def)

lemma stage_cong:
  "(name \<in> set A \<longleftrightarrow> name \<in> set B) \<Longrightarrow>
     stage ex A name prep build s = stage ex B name prep build s"
  by (simp add: stage_def)

lemma run_steps_cong:
  assumes "\<forall>n \<in> set stage_names. n \<in> set A \<longleftrightarrow> n \<in> set B"
  shows "run_steps ex config A s = run_steps ex config B s"
proof -
  have "stage ex A n prep build t = stage ex B n prep build t"
    if "n \<in> set stage_names" for n prep build t
    using assms that by (intro stage_cong) blast
  then show ?thesis
    by (simp add: run_steps_def stage_names_def)
qed

lemma run_steps_none:
  assumes "set active \<inter> set stage_names = {}"
  shows "run_steps ex config active s = s"
proof -
  have "stage ex active n prep build t = t" if "n \<in> set stage_names" for n prep build t
    using assms that by (intro stage_skip) blast
  then show ?thesis
    by (simp add: run_steps_def stage_names_def)
qed

lemma stage_invoked_sub:
  "set (invoked (stage ex active name prep build s))
     \<subseteq> set (invoked s) \<union> {(n, c). n = name \<and> name \<in> set active \<and> build = Inr c}"
  using stage_invoked [of ex active name prep build s] by auto

subsection \<open>The six blocks\<close>

lemma run_steps_invoked_sub:
  "set (invoked (run_steps ex config active s))
     \<subseteq> set (invoked s) \<union>
        {(n, c). n \<in> set active \<and> (n, Inr c) \<in> set (call_table config)}"
proof -
  have step: "set (invoked (stage ex active n prep build t))
      \<subseteq> set (invoked t) \<union> {(n, c). n \<in> set active \<and> (n, Inr c) \<in> set (call_table config)}"
    if "(n, build) \<in> set (call_table config)" for n prep build t
    using stage_invoked_sub [of ex active n prep build t] that by auto
  show ?thesis
    unfolding run_steps_def Let_def
    by (intro subset_trans [OF step] Un_least) (auto simp: call_table_def)
qed

lemma mk_call_location: "mk_call loc env kvs = Inr c \<Longrightarrow> location c = loc"
  by (auto simp: mk_call_def split: sum.splits)

lemma go_invoked_sub:
  assumes "getitem2 config ''main'' ''steps'' = Inr (CStr sp)"
  shows "set (invoked (go ex config w))
     \<subseteq> {(n, c). n \<in> set (active_steps sp) \<and> (n, Inr c) \<in> set (call_table config)}"
proof (cases "failure (init_tracking ex config w) = None")
  case True
  then have "go ex config w = run_steps ex config (active_steps sp) (init_tracking ex config w)"
    using assms by (simp add: go_def)
  then show ?thesis
    using run_steps_invoked_sub [of ex config "active_steps sp" "init_tracking ex config w"]
    by simp
next
  case False
  then have "go ex config w = init_tracking ex config w"
    by (simp add: go_def)
  then show ?thesis
    by simp
qed

lemma call_locations:
  "download_call config = Inr c \<Longrightarrow> location c = (ProjectRoot, [''components'', ''get_data''])"
  "basic_cleaning_call config = Inr c \<Longrightarrow> location c = (OriginalCwd, [''src'', ''basic_cleaning''])"
  "data_check_call config = Inr c \<Longrightarrow> location c = (OriginalCwd, [''src'', ''data_check''])"
  "data_split_call config = Inr c \<Longrightarrow> location c = (RootPath, [''components/train_val_test_split''])"
  "train_random_forest_call config = Inr c \<Longrightarrow> location c = (RootPath, [''src/train_random_forest''])"
  "test_regression_model_call config = Inr c \<Longrightarrow>
     location c = (RootPath, [''components/test_regression_model''])"
  unfolding download_call_def basic_cleaning_call_def data_check_call_def data_split_call_def
    train_random_forest_call_def test_regression_model_call_def
  by (rule mk_call_location; assumption)+

lemma call_table_cases:
  assumes "(n, Inr c) \<in> set (call_table config)"
  shows "n = ''download'' \<and> download_call config = Inr c \<or>
         n = ''basic_cleaning'' \<and> basic_cleaning_call config = Inr c \<or>
         n = ''data_check'' \<and> data_check_call config = Inr c \<or>
         n = ''data_split'' \<and> data_split_call config = Inr c \<or>
         n = ''train_random_forest'' \<and> train_random_forest_call config = Inr c \<or>
         n = ''test_regression_model'' \<and> test_regression_model_call config = Inr c"
  using assms unfolding call_table_def by (simp only: set_simps insert_iff empty_iff prod.inject) metis

lemma call_table_location:
  assumes "(n, Inr c) \<in> set (call_table config)" and "n \<noteq> ''test_regression_model''"
  shows "location c \<noteq> (RootPath, [''components/test_regression_model''])"
proof -
  from call_table_cases [OF assms(1)] assms(2)
  have "location c \<in> {(ProjectRoot, [''components'', ''get_data'']),
      (OriginalCwd, [''src'', ''basic_cleaning'']), (OriginalCwd, [''src'', ''data_check'']),
      (RootPath, [''components/train_val_test_split'']), (RootPath, [''src/train_random_forest''])}"
    by (elim disjE conjE) (simp_all only: call_locations insert_iff simp_thms)
  then show ?thesis
    by (elim insertE emptyE) simp_all
qed

lemmas driver_defs =
  go_def init_tracking_def run_steps_def stage_def active_steps_def steps_list_def getitem2_def
  fail_def no_prepare_def mk_call_def cfg_def lit_def download_call_def basic_cleaning_call_def
  data_check_call_def data_split_call_def train_random_forest_call_def
  test_regression_model_call_def write_rf_config_def clean_sample_ref_def
  sample_externals_def example_config_def

lemma example_all_steps:
  "getitem2 (example_config ''all'') ''main'' ''steps'' = Inr (CStr ''all'')"
  by (simp add: example_config_def getitem2_def)

lemma example_steps:
  "getitem2 (example_config sp) ''main'' ''steps'' = Inr (CStr sp)"
  by (simp add: example_config_def getitem2_def)

subsection \<open>The value \<open>all\<close>\<close>

text \<open>
  Claim C3. When \<open>main.steps\<close> is \<open>"all"\<close>, the step \<open>test_regression_model\<close>, one
  of the six names the driver knows, is not in the active list, and the driver makes no
  call under that name nor any call of the component \<open>components/test_regression_model\<close>,
  whatever the rest of the configuration and the outside world.
\<close>

theorem all_never_runs_test_regression_model:
  assumes "getitem2 config ''main'' ''steps'' = Inr (CStr ''all'')"
  shows "''test_regression_model'' \<in> set stage_names \<and>
         ''test_regression_model'' \<notin> set (active_steps ''all'') \<and>
         (\<forall>(n, c) \<in> set (invoked (go ex config w)).
            n \<noteq> ''test_regression_model'' \<and>
            location c \<noteq> (RootPath, [''components/test_regression_model'']))"
proof (intro conjI)
  show "''test_regression_model'' \<in> set stage_names"
    by (simp add: stage_names_def)
  show notin: "''test_regression_model'' \<notin> set (active_steps ''all'')"
    by (simp add: active_steps_def steps_list_def)
  show "\<forall>(n, c) \<in> set (invoked (go ex config w)).
      n \<noteq> ''test_regression_model'' \<and>
      location c \<noteq> (RootPath, [''components/test_regression_model''])"
  proof (clarify, rule conjI)
    fix n c assume "(n, c) \<in> set (invoked (go ex config w))"
    with go_invoked_sub [OF assms, of ex w]
    have n: "n \<in> set (active_steps ''all'')" and c: "(n, Inr c) \<in> set (call_table config)"
      by auto
    from n notin show ne: "n \<noteq> ''test_regression_model''"
      by blast
    from c ne show "location c \<noteq> (RootPath, [''components/test_regression_model''])"
      by (rule call_table_location)
  qed
qed

theorem all_never_runs_test_regression_model_witness:
  "getitem2 (example_config ''all'') ''main'' ''steps'' = Inr (CStr ''all'') \<and>
   map fst (invoked (go sample_externals (example_config ''all'') 0)) = steps_list \<and>
   ''test_regression_model'' \<in> set stage_names \<and>
   ''test_regression_model'' \<notin> set (active_steps ''all'') \<and>
   ''test_regression_model'' \<notin> fst ` set (invoked (go sample_externals (example_config ''all'') 0)) \<and>
   (RootPath, [''components/test_regression_model''])
     \<notin> (location \<circ> snd) ` set (invoked (go sample_externals (example_config ''all'') 0))"
proof -
  have run: "map fst (invoked (go sample_externals (example_config ''all'') 0)) = steps_list"
    by (simp add: driver_defs)
  show ?thesis
    using example_all_steps run
      all_never_runs_test_regression_model [OF example_all_steps, of sample_externals 0]
    by fastforce
qed

subsection \<open>An explicit list of two steps\<close>





subsection \<open>Names that the driver does not know\<close>

text \<open>
  Claim C7. For an explicit list in \<open>main.steps\<close>, a name that is none of the six names
  the driver tests for has no effect: every call is made under a name that is both in the
  list and one of the six, and the run is the run of the list with the other names taken
  out, so such a name causes neither a call nor an error. When the list holds none of the
  six names and lines 29 to 34 have passed, the driver makes no call and ends without an
  error.
\<close>

theorem unknown_step_names_ignored:
  assumes "getitem2 config ''main'' ''steps'' = Inr (CStr sp)" and "sp \<noteq> ''all''"
  shows "fst ` set (invoked (go ex config w)) \<subseteq> set (split CHR '','' sp) \<inter> set stage_names \<and>
         go ex config w =
           (if failure (init_tracking ex config w) = None
            then run_steps ex config (filter (\<lambda>n. n \<in> set stage_names) (split CHR '','' sp))
                   (init_tracking ex config w)
            else init_tracking ex config w) \<and>
         (set (split CHR '','' sp) \<inter> set stage_names = {} \<and>
          failure (init_tracking ex config w) = None \<longrightarrow>
            invoked (go ex config w) = [] \<and> failure (go ex config w) = None)"
proof (intro conjI impI)
  have act: "active_steps sp = split CHR '','' sp"
    using assms(2) by (simp add: active_steps_def)
  have go: "go ex config w =
      (if failure (init_tracking ex config w) = None
       then run_steps ex config (split CHR '','' sp) (init_tracking ex config w)
       else init_tracking ex config w)"
    using assms(1) by (simp add: go_def act)
  have "fst ` set (call_table config) \<subseteq> set stage_names"
    by (simp add: call_table_def stage_names_def)
  then have "(n, b) \<in> set (call_table config) \<Longrightarrow> n \<in> set stage_names" for n b
    by force
  with go_invoked_sub [OF assms(1), of ex w]
  show "fst ` set (invoked (go ex config w)) \<subseteq> set (split CHR '','' sp) \<inter> set stage_names"
    unfolding act by fastforce
  have "run_steps ex config (split CHR '','' sp) s
      = run_steps ex config (filter (\<lambda>n. n \<in> set stage_names) (split CHR '','' sp)) s" for s
    by (rule run_steps_cong) simp
  with go show "go ex config w =
      (if failure (init_tracking ex config w) = None
       then run_steps ex config (filter (\<lambda>n. n \<in> set stage_names) (split CHR '','' sp))
              (init_tracking ex config w)
       else init_tracking ex config w)"
    by simp
  assume "set (split CHR '','' sp) \<inter> set stage_names = {} \<and>
      failure (init_tracking ex config w) = None"
  then have "go ex config w = init_tracking ex config w"
    and "failure (init_tracking ex config w) = None"
    using go by (simp_all add: run_steps_none)
  then show "invoked (go ex config w) = []" and "failure (go ex config w) = None"
    by simp_all
qed

theorem unknown_step_names_ignored_witness:
  "getitem2 (example_config ''foo,download,bar'') ''main'' ''steps''
     = Inr (CStr ''foo,download,bar'') \<and>
   ''foo,download,bar'' \<noteq> ''all'' \<and>
   map fst (invoked (go sample_externals (example_config ''foo,download,bar'') 0)) = [''download''] \<and>
   failure (go sample_externals (example_config ''foo,download,bar'') 0) = None \<and>
   fst ` set (invoked (go sample_externals (example_config ''foo,download,bar'') 0))
     \<subseteq> set (split CHR '','' ''foo,download,bar'') \<inter> set stage_names \<and>
   getitem2 (example_config ''foo,bar'') ''main'' ''steps'' = Inr (CStr ''foo,bar'') \<and>
   ''foo,bar'' \<noteq> ''all'' \<and>
   set (split CHR '','' ''foo,bar'') \<inter> set stage_names = {} \<and>
   failure (init_tracking sample_externals (example_config ''foo,bar'') 0) = None \<and>
   invoked (go sample_externals (example_config ''foo,bar'') 0) = [] \<and>
   failure (go sample_externals (example_config ''foo,bar'') 0) = None"
proof -
  have ne: "''foo,download,bar'' \<noteq> ''all''" "''foo,bar'' \<noteq> ''all''"
    by simp_all
  have run: "map fst (invoked (go sample_externals (example_config ''foo,download,bar'') 0))
      = [''download'']"
    "failure (go sample_externals (example_config ''foo,download,bar'') 0) = None"
    by (simp_all add: driver_defs)
  have none: "set (split CHR '','' ''foo,bar'') \<inter> set stage_names = {}"
    by (simp add: stage_names_def)
  have init: "failure (init_tracking sample_externals (example_config ''foo,bar'') 0) = None"
    by (simp add: init_tracking_def getitem2_def example_config_def sample_externals_def)
  show ?thesis
    using ne run none init example_steps [of "''foo,download,bar''"] example_steps [of "''foo,bar''"]
      unknown_step_names_ignored [OF example_steps ne(1), of sample_externals 0]
      unknown_step_names_ignored [OF example_steps ne(2), of sample_externals 0]
    by blast
qed

section \<open>Properties of the command line\<close>
















end
